theory Spec2Isabelle
  imports Main "HOL-Library.Word" "HOL-Library.Monad_Syntax"
begin

section \<open>JavaScript values\<close>

text \<open>
  The class GitHubMCP is kept in several copies in the repository. This development
  embeds the copy in src/tools/github.ts; the unnamed file part_000 has the same
  formatter and the same cleaner with three more cases (user, comment, comments), which
  are embedded under names ending in part000; the entry file embedded in README.md has
  the same generic step with a longer key list, embedded under names ending in entry.

  The data the cleaner and the formatter receive is parsed JSON, so a value is
  undefined (the result of reading a missing property), null, a boolean, a number, a
  string, an array or an object. A string is a list of UTF-16 code units, which is what
  length and substring count. Numbers are modelled as integers (ids and counts). An
  object is the list of its own properties in insertion order.
\<close>

type_synonym jsstring = "16 word list"

definition str :: "string \<Rightarrow> jsstring" where
  "str s = map (\<lambda>c. of_nat (of_char c)) s"

datatype jsval =
    JUndefined
  | JNull
  | JBool bool
  | JNum int
  | JStr jsstring
  | JArr "jsval list"
  | JObj "(jsstring \<times> jsval) list"

type_synonym jsobject = "(jsstring \<times> jsval) list"

text \<open>Truthiness as tested by \<^verbatim>\<open>if (v)\<close>, \<^verbatim>\<open>v && ...\<close> and \<^verbatim>\<open>v || ...\<close>.\<close>

fun truthy :: "jsval \<Rightarrow> bool" where
  "truthy JUndefined = False"
| "truthy JNull = False"
| "truthy (JBool b) = b"
| "truthy (JNum n) = (n \<noteq> 0)"
| "truthy (JStr s) = (s \<noteq> [])"
| "truthy (JArr xs) = True"
| "truthy (JObj kvs) = True"

text \<open>\<^verbatim>\<open>typeof v === 'object'\<close> holds of objects, arrays and null.\<close>

fun typeof_object :: "jsval \<Rightarrow> bool" where
  "typeof_object JNull = True"
| "typeof_object (JArr xs) = True"
| "typeof_object (JObj kvs) = True"
| "typeof_object v = False"

fun typeof_string :: "jsval \<Rightarrow> bool" where
  "typeof_string (JStr s) = True"
| "typeof_string v = False"

fun isArray :: "jsval \<Rightarrow> bool" where
  "isArray (JArr xs) = True"
| "isArray v = False"

text \<open>
  Reading a property, \<^verbatim>\<open>v.k\<close> or \<^verbatim>\<open>v[k]\<close>: a TypeError (None) on undefined and null, the
  own property of an object or undefined, the length of a string or an array. The
  program reads only properties named by literals, none of which is an index or a
  method of a prototype; the methods it calls (map, join, substring, forEach) are
  modelled where they are called.
\<close>

definition own_prop :: "jsobject \<Rightarrow> jsstring \<Rightarrow> jsval" where
  "own_prop kvs k = (case map_of kvs k of None \<Rightarrow> JUndefined | Some v \<Rightarrow> v)"

fun get_prop :: "jsval \<Rightarrow> jsstring \<Rightarrow> jsval option" where
  "get_prop JUndefined k = None"
| "get_prop JNull k = None"
| "get_prop (JBool b) k = Some JUndefined"
| "get_prop (JNum n) k = Some JUndefined"
| "get_prop (JStr s) k =
     Some (if k = str ''length'' then JNum (int (length s)) else JUndefined)"
| "get_prop (JArr xs) k =
     Some (if k = str ''length'' then JNum (int (length xs)) else JUndefined)"
| "get_prop (JObj kvs) k =
     Some (own_prop kvs k)"

text \<open>
  Assigning a property, \<^verbatim>\<open>result[k] = v\<close>: an existing property keeps its place, a new
  one is added last.
\<close>

fun set_prop :: "jsobject \<Rightarrow> jsstring \<Rightarrow> jsval \<Rightarrow> jsobject" where
  "set_prop [] k v = [(k, v)]"
| "set_prop ((k', v') # kvs) k v =
     (if k' = k then (k, v) # kvs else (k', v') # set_prop kvs k v)"

text \<open>\<^verbatim>\<open>data.map(f)\<close> where f may throw: the first exception ends the whole map.\<close>

fun array_map :: "(jsval \<Rightarrow> jsval option) \<Rightarrow> jsval list \<Rightarrow> jsval list option" where
  "array_map f [] = Some []"
| "array_map f (x # xs) =
     (case f x of None \<Rightarrow> None
      | Some y \<Rightarrow> (case array_map f xs of None \<Rightarrow> None | Some ys \<Rightarrow> Some (y # ys)))"

section \<open>The response cleaner\<close>

subsection \<open>The generic step, removeExcessiveFields\<close>

text \<open>The key list of src/tools/github.ts, lines 1678 to 1696 (the same in part_000).\<close>

definition keysToKeep :: "jsstring list" where
  "keysToKeep = map str
     [''id'', ''name'', ''login'', ''full_name'', ''html_url'', ''description'',
      ''private'', ''created_at'', ''updated_at'', ''pushed_at'', ''language'',
      ''default_branch'', ''number'', ''title'', ''state'', ''body'', ''sha'']"

text \<open>The key list of the entry file embedded in README.md, lines 2238 to 2266.\<close>

definition keysToKeep_entry :: "jsstring list" where
  "keysToKeep_entry = map str
     [''id'', ''name'', ''login'', ''full_name'', ''html_url'', ''description'',
      ''private'', ''created_at'', ''updated_at'', ''pushed_at'', ''language'',
      ''default_branch'', ''number'', ''title'', ''state'', ''body'', ''sha'',
      ''protected'', ''protection'', ''commit'', ''tag_name'', ''target_commitish'',
      ''prerelease'', ''draft'', ''assets_url'', ''upload_url'', ''published_at'']"

text \<open>
  The value stored for a kept key: a string longer than 300 code units under body or
  description is cut to its first 300 followed by three dots, anything else is copied.
\<close>

fun kept_value :: "jsstring \<Rightarrow> jsval \<Rightarrow> jsval" where
  "kept_value key (JStr s) =
     (if length s > 300 \<and> (key = str ''body'' \<or> key = str ''description'')
      then JStr (take 300 s @ str ''...'') else JStr s)"
| "kept_value key v = v"

text \<open>The loop \<^verbatim>\<open>for (const key of keysToKeep)\<close>, with the object built so far.\<close>

fun keep_loop :: "jsstring list \<Rightarrow> jsval \<Rightarrow> jsobject \<Rightarrow> jsobject option" where
  "keep_loop [] obj result = Some result"
| "keep_loop (key # keys) obj result =
     (case get_prop obj key of
        None \<Rightarrow> None
      | Some v \<Rightarrow>
          if v \<noteq> JUndefined
          then keep_loop keys obj (set_prop result key (kept_value key v))
          else keep_loop keys obj result)"

text \<open>
  The two statements after the loop: \<^verbatim>\<open>if (obj.owner && typeof obj.owner === 'object' &&
  obj.owner.login) result.owner = obj.owner.login\<close>, and the same for user.
\<close>

definition flatten_login :: "jsstring \<Rightarrow> jsval \<Rightarrow> jsobject \<Rightarrow> jsobject option" where
  "flatten_login field obj result = do {
     ref \<leftarrow> get_prop obj field;
     if truthy ref \<and> typeof_object ref then do {
       login \<leftarrow> get_prop ref (str ''login'');
       Some (if truthy login then set_prop result field login else result)
     } else Some result
   }"

definition removeExcessiveFields_with :: "jsstring list \<Rightarrow> jsval \<Rightarrow> jsobject option" where
  "removeExcessiveFields_with keys obj = do {
     result \<leftarrow> keep_loop keys obj [];
     result \<leftarrow> flatten_login (str ''owner'') obj result;
     flatten_login (str ''user'') obj result
   }"

definition removeExcessiveFields :: "jsval \<Rightarrow> jsobject option" where
  "removeExcessiveFields obj = removeExcessiveFields_with keysToKeep obj"


subsection \<open>The cases of cleanGitHubResponse in src/tools/github.ts\<close>

text \<open>
  Each case of the switch has the same statements twice, once inside \<^verbatim>\<open>data.map\<close> for
  an array and once for a single value; the statements are embedded once, as a function
  of the element. \<^verbatim>\<open>if (repo.topics) cleaned.topics = repo.topics\<close> is assign_if_truthy,
  \<^verbatim>\<open>if (repo.open_issues_count !== undefined) cleaned.open_issues_count = ...\<close> is
  assign_if_defined.
\<close>

definition assign_if_truthy :: "jsval \<Rightarrow> jsstring \<Rightarrow> jsstring \<Rightarrow> jsobject \<Rightarrow> jsobject option" where
  "assign_if_truthy src from to cleaned = do {
     v \<leftarrow> get_prop src from;
     Some (if truthy v then set_prop cleaned to v else cleaned)
   }"

definition assign_if_defined :: "jsval \<Rightarrow> jsstring \<Rightarrow> jsstring \<Rightarrow> jsobject \<Rightarrow> jsobject option" where
  "assign_if_defined src from to cleaned = do {
     v \<leftarrow> get_prop src from;
     Some (if v \<noteq> JUndefined then set_prop cleaned to v else cleaned)
   }"

definition clean_repository :: "jsval \<Rightarrow> jsval option" where
  "clean_repository repo = do {
     cleaned \<leftarrow> removeExcessiveFields repo;
     cleaned \<leftarrow> assign_if_truthy repo (str ''topics'') (str ''topics'') cleaned;
     cleaned \<leftarrow> assign_if_defined repo (str ''open_issues_count'') (str ''open_issues_count'') cleaned;
     cleaned \<leftarrow> assign_if_truthy repo (str ''clone_url'') (str ''clone_url'') cleaned;
     cleaned \<leftarrow> assign_if_defined repo (str ''stargazers_count'') (str ''stars'') cleaned;
     cleaned \<leftarrow> assign_if_truthy repo (str ''visibility'') (str ''visibility'') cleaned;
     Some (JObj cleaned)
   }"

text \<open>\<^verbatim>\<open>if (pr.head && pr.head.ref) cleaned.head_branch = pr.head.ref\<close>, and the same for base.\<close>

definition assign_ref :: "jsval \<Rightarrow> jsstring \<Rightarrow> jsstring \<Rightarrow> jsobject \<Rightarrow> jsobject option" where
  "assign_ref pr side to cleaned = do {
     end \<leftarrow> get_prop pr side;
     if truthy end then do {
       ref \<leftarrow> get_prop end (str ''ref'');
       Some (if truthy ref then set_prop cleaned to ref else cleaned)
     } else Some cleaned
   }"

definition clean_pull_request :: "jsval \<Rightarrow> jsval option" where
  "clean_pull_request pr = do {
     cleaned \<leftarrow> removeExcessiveFields pr;
     cleaned \<leftarrow> assign_if_truthy pr (str ''merged_at'') (str ''merged_at'') cleaned;
     cleaned \<leftarrow> assign_ref pr (str ''head'') (str ''head_branch'') cleaned;
     cleaned \<leftarrow> assign_ref pr (str ''base'') (str ''base_branch'') cleaned;
     cleaned \<leftarrow> assign_if_defined pr (str ''merged'') (str ''merged'') cleaned;
     Some (JObj cleaned)
   }"

text \<open>
  \<^verbatim>\<open>if (issue.labels) cleaned.labels = Array.isArray(issue.labels) ? issue.labels.map((l) =>
  (typeof l === 'string' ? l : l.name)) : issue.labels\<close>, and the same for assignees with
  login.
\<close>

definition name_of :: "jsstring \<Rightarrow> jsval \<Rightarrow> jsval option" where
  "name_of field l = (if typeof_string l then Some l else get_prop l field)"

definition assign_names :: "jsval \<Rightarrow> jsstring \<Rightarrow> jsstring \<Rightarrow> jsobject \<Rightarrow> jsobject option" where
  "assign_names issue list field cleaned = do {
     v \<leftarrow> get_prop issue list;
     if truthy v then
       (case v of
          JArr ls \<Rightarrow> do {
            names \<leftarrow> array_map (name_of field) ls;
            Some (set_prop cleaned list (JArr names))
          }
        | _ \<Rightarrow> Some (set_prop cleaned list v))
     else Some cleaned
   }"

definition clean_issue :: "jsval \<Rightarrow> jsval option" where
  "clean_issue issue = do {
     cleaned \<leftarrow> removeExcessiveFields issue;
     cleaned \<leftarrow> assign_if_truthy issue (str ''closed_at'') (str ''closed_at'') cleaned;
     cleaned \<leftarrow> assign_names issue (str ''labels'') (str ''name'') cleaned;
     cleaned \<leftarrow> assign_names issue (str ''assignees'') (str ''login'') cleaned;
     Some (JObj cleaned)
   }"

definition clean_default :: "jsval \<Rightarrow> jsval option" where
  "clean_default obj = map_option JObj (removeExcessiveFields obj)"

text \<open>\<^verbatim>\<open>if (Array.isArray(data)) return data.map(f); else return f(data)\<close>.\<close>

definition map_or_apply :: "(jsval \<Rightarrow> jsval option) \<Rightarrow> jsval \<Rightarrow> jsval option" where
  "map_or_apply f data =
     (case data of
        JArr xs \<Rightarrow> map_option JArr (array_map f xs)
      | _ \<Rightarrow> f data)"

text \<open>The switch on the kind: the statements the chosen case applies to one element.\<close>

definition clean_element :: "jsstring \<Rightarrow> jsval \<Rightarrow> jsval option" where
  "clean_element type =
     (if type = str ''repository'' then clean_repository
      else if type = str ''pull_request'' then clean_pull_request
      else if type = str ''issue'' then clean_issue
      else clean_default)"

text \<open>The body of the try block. None is a thrown exception.\<close>

definition cleanGitHubResponse_try :: "jsval \<Rightarrow> jsstring \<Rightarrow> jsval option" where
  "cleanGitHubResponse_try data type = map_or_apply (clean_element type) data"

text \<open>
  The loop in closed form, for an object: the keys that are defined on it, in the order
  of the key list, each with its kept value.
\<close>

definition kept_fields :: "jsstring list \<Rightarrow> jsobject \<Rightarrow> jsobject" where
  "kept_fields keys kvs =
     map (\<lambda>k. (k, kept_value k (own_prop kvs k)))
       (filter (\<lambda>k. own_prop kvs k \<noteq> JUndefined) keys)"

text \<open>
  The inputs of the idempotence property: an object whose fields are all in the key list,
  or an array of such objects.
\<close>

definition fields_within :: "jsstring list \<Rightarrow> jsval \<Rightarrow> bool" where
  "fields_within keys x = (case x of JObj kvs \<Rightarrow> list_all (\<lambda>kv. fst kv \<in> set keys) kvs | _ \<Rightarrow> False)"

definition within_allow_list :: "jsval \<Rightarrow> bool" where
  "within_allow_list data =
     (case data of
        JArr xs \<Rightarrow> list_all (fields_within keysToKeep) xs
      | _ \<Rightarrow> fields_within keysToKeep data)"

text \<open>The whole function: \<^verbatim>\<open>catch (error) { return data; }\<close>.\<close>

definition cleanGitHubResponse :: "jsval \<Rightarrow> jsstring \<Rightarrow> jsval" where
  "cleanGitHubResponse data type =
     (case cleanGitHubResponse_try data type of
        None \<Rightarrow> data
      | Some cleaned \<Rightarrow> cleaned)"

section \<open>The texts of the formatter\<close>

text \<open>
  The literal texts of the source are Chinese; each is given by its UTF-16 code units,
  with its meaning beside it.
\<close>

definition txt_no_repositories :: jsstring where
  \<comment> \<open>no repositories found\<close>
  "txt_no_repositories = [0x672A, 0x627E, 0x5230, 0x4EFB, 0x4F55, 0x4ED3, 0x5E93, 0x3002]"

definition txt_no_pull_requests :: jsstring where
  \<comment> \<open>no pull requests found\<close>
  "txt_no_pull_requests = [0x672A, 0x627E, 0x5230, 0x4EFB, 0x4F55, 0x62C9, 0x53D6, 0x8BF7, 0x6C42, 0x3002]"

definition txt_no_issues :: jsstring where
  \<comment> \<open>no issues found\<close>
  "txt_no_issues = [0x672A, 0x627E, 0x5230, 0x4EFB, 0x4F55, 0x8BAE, 0x9898, 0x3002]"

definition txt_no_users :: jsstring where
  \<comment> \<open>no users found\<close>
  "txt_no_users = [0x672A, 0x627E, 0x5230, 0x4EFB, 0x4F55, 0x7528, 0x6237, 0x3002]"

definition txt_found :: jsstring where
  \<comment> \<open>found\<close>
  "txt_found = [0x627E, 0x5230]"

definition txt_n_repositories :: jsstring where
  \<comment> \<open>repositories, after a count\<close>
  "txt_n_repositories = [0x4E2A, 0x4ED3, 0x5E93]"

definition txt_n_pull_requests :: jsstring where
  \<comment> \<open>pull requests, after a count\<close>
  "txt_n_pull_requests = [0x4E2A, 0x62C9, 0x53D6, 0x8BF7, 0x6C42]"

definition txt_n_issues :: jsstring where
  \<comment> \<open>issues, after a count\<close>
  "txt_n_issues = [0x4E2A, 0x8BAE, 0x9898]"

definition txt_n_users :: jsstring where
  \<comment> \<open>users, after a count\<close>
  "txt_n_users = [0x4E2A, 0x7528, 0x6237]"

definition txt_repository :: jsstring where
  \<comment> \<open>repository\<close>
  "txt_repository = [0x4ED3, 0x5E93]"

definition txt_description :: jsstring where
  \<comment> \<open>description\<close>
  "txt_description = [0x63CF, 0x8FF0]"

definition txt_link :: jsstring where
  \<comment> \<open>link\<close>
  "txt_link = [0x94FE, 0x63A5]"

definition txt_language :: jsstring where
  \<comment> \<open>main language\<close>
  "txt_language = [0x4E3B, 0x8981, 0x8BED, 0x8A00]"

definition txt_stars :: jsstring where
  \<comment> \<open>number of stars\<close>
  "txt_stars = [0x661F, 0x6807, 0x6570]"

definition txt_owner :: jsstring where
  \<comment> \<open>repository owner\<close>
  "txt_owner = [0x4ED3, 0x5E93, 0x6240, 0x6709, 0x8005]"

definition txt_topics :: jsstring where
  \<comment> \<open>topic labels\<close>
  "txt_topics = [0x4E3B, 0x9898, 0x6807, 0x7B7E]"

definition txt_updated :: jsstring where
  \<comment> \<open>updated at\<close>
  "txt_updated = [0x66F4, 0x65B0, 0x4E8E]"

definition txt_open :: jsstring where
  \<comment> \<open>open\<close>
  "txt_open = [0x5F00, 0x653E]"

definition txt_closed :: jsstring where
  \<comment> \<open>closed\<close>
  "txt_closed = [0x5173, 0x95ED]"

definition txt_creator :: jsstring where
  \<comment> \<open>creator\<close>
  "txt_creator = [0x521B, 0x5EFA, 0x8005]"

definition txt_created :: jsstring where
  \<comment> \<open>created at\<close>
  "txt_created = [0x521B, 0x5EFA, 0x4E8E]"

definition txt_merged :: jsstring where
  \<comment> \<open>merged\<close>
  "txt_merged = [0x5DF2, 0x5408, 0x5E76]"

definition txt_yes :: jsstring where
  \<comment> \<open>yes\<close>
  "txt_yes = [0x662F]"

definition txt_no :: jsstring where
  \<comment> \<open>no\<close>
  "txt_no = [0x5426]"

definition txt_merged_at :: jsstring where
  \<comment> \<open>merged at\<close>
  "txt_merged_at = [0x5408, 0x5E76, 0x4E8E]"

definition txt_pull_request :: jsstring where
  \<comment> \<open>pull request\<close>
  "txt_pull_request = [0x62C9, 0x53D6, 0x8BF7, 0x6C42]"

definition txt_state :: jsstring where
  \<comment> \<open>state\<close>
  "txt_state = [0x72B6, 0x6001]"

definition txt_closed_at :: jsstring where
  \<comment> \<open>closed at\<close>
  "txt_closed_at = [0x5173, 0x95ED, 0x4E8E]"

definition txt_issue :: jsstring where
  \<comment> \<open>issue\<close>
  "txt_issue = [0x8BAE, 0x9898]"

definition txt_homepage :: jsstring where
  \<comment> \<open>home page\<close>
  "txt_homepage = [0x4E3B, 0x9875]"

definition txt_user :: jsstring where
  \<comment> \<open>user\<close>
  "txt_user = [0x7528, 0x6237]"

definition txt_data_list :: jsstring where
  \<comment> \<open>data list\<close>
  "txt_data_list = [0x6570, 0x636E, 0x5217, 0x8868]"

definition txt_data_details :: jsstring where
  \<comment> \<open>data details\<close>
  "txt_data_details = [0x6570, 0x636E, 0x8BE6, 0x60C5]"

definition txt_data :: jsstring where
  \<comment> \<open>data\<close>
  "txt_data = [0x6570, 0x636E]"

definition txt_no_comment_data :: jsstring where
  \<comment> \<open>cannot get the comment data\<close>
  "txt_no_comment_data = [0x65E0, 0x6CD5, 0x83B7, 0x53D6, 0x8BC4, 0x8BBA, 0x6570, 0x636E, 0x3002]"

definition txt_page :: jsstring where
  \<comment> \<open>page number\<close>
  "txt_page = [0x9875, 0x7801]"

definition txt_has_prev :: jsstring where
  \<comment> \<open>there is a previous page\<close>
  "txt_has_prev = [0x6709, 0x4E0A, 0x4E00, 0x9875]"

definition txt_no_prev :: jsstring where
  \<comment> \<open>there is no previous page\<close>
  "txt_no_prev = [0x6CA1, 0x6709, 0x4E0A, 0x4E00, 0x9875]"

definition txt_has_next :: jsstring where
  \<comment> \<open>there is a next page\<close>
  "txt_has_next = [0x6709, 0x4E0B, 0x4E00, 0x9875]"

definition txt_no_next :: jsstring where
  \<comment> \<open>there is no next page\<close>
  "txt_no_next = [0x6CA1, 0x6709, 0x4E0B, 0x4E00, 0x9875]"

definition txt_page_count :: jsstring where
  \<comment> \<open>number of comments on this page\<close>
  "txt_page_count = [0x672C, 0x9875, 0x8BC4, 0x8BBA, 0x6570]"

definition txt_no_comments_on_page :: jsstring where
  \<comment> \<open>no comments on this page\<close>
  "txt_no_comments_on_page = [0x672C, 0x9875, 0x6CA1, 0x6709, 0x8BC4, 0x8BBA, 0x3002]"

definition txt_comment_list :: jsstring where
  \<comment> \<open>comment list\<close>
  "txt_comment_list = [0x8BC4, 0x8BBA, 0x5217, 0x8868]"

definition txt_anonymous :: jsstring where
  \<comment> \<open>anonymous user\<close>
  "txt_anonymous = [0x533F, 0x540D, 0x7528, 0x6237]"

definition txt_commented :: jsstring where
  \<comment> \<open>commented\<close>
  "txt_commented = [0x8BC4, 0x8BBA, 0x9053]"

definition txt_commented_at :: jsstring where
  \<comment> \<open>commented at\<close>
  "txt_commented_at = [0x8BC4, 0x8BBA, 0x4E8E]"

definition txt_content :: jsstring where
  \<comment> \<open>content\<close>
  "txt_content = [0x5185, 0x5BB9]"

section \<open>Built-in operations of the language\<close>

text \<open>
  What the program takes from the platform and does not define: the reading of a string
  as a number (ToNumber; None is NaN), the parsing of a date string (Date.parse; None is
  NaN), the locale's rendering of a valid time value, and
  \<^verbatim>\<open>JSON.stringify(data, null, 2)\<close> as it appears in a template.
\<close>

record platform =
  string_to_number :: "jsstring \<Rightarrow> int option"
  date_parse :: "jsstring \<Rightarrow> int option"
  locale_string :: "int \<Rightarrow> jsstring"
  json_stringify :: "jsval \<Rightarrow> jsstring"

definition nl :: jsstring where
  "nl = [0x0A]"

text \<open>The decimal text of an integer, as a template prints a number below 10^21.\<close>

fun string_of_nat :: "nat \<Rightarrow> jsstring" where
  "string_of_nat n =
     (if n < 10 then [of_nat (48 + n)]
      else string_of_nat (n div 10) @ [of_nat (48 + n mod 10)])"

definition string_of_int :: "int \<Rightarrow> jsstring" where
  "string_of_int i = (if i < 0 then str ''-'' @ string_of_nat (nat (- i)) else string_of_nat (nat i))"

fun join_with :: "jsstring \<Rightarrow> jsstring list \<Rightarrow> jsstring" where
  "join_with sep [] = []"
| "join_with sep [x] = x"
| "join_with sep (x # y # ys) = x @ sep @ join_with sep (y # ys)"

text \<open>
  The text of a value inside a template, \<^verbatim>\<open>`${v}`\<close>: an array prints its elements joined
  by commas, with nothing for null and undefined.
\<close>

fun to_string :: "jsval \<Rightarrow> jsstring" where
  "to_string JUndefined = str ''undefined''"
| "to_string JNull = str ''null''"
| "to_string (JBool b) = (if b then str ''true'' else str ''false'')"
| "to_string (JNum n) = string_of_int n"
| "to_string (JStr s) = s"
| "to_string (JArr xs) =
     join_with (str '','')
       (map (\<lambda>x. if x = JUndefined \<or> x = JNull then [] else to_string x) xs)"
| "to_string (JObj kvs) = str ''[object Object]''"

text \<open>\<^verbatim>\<open>v.join(sep)\<close>: only an array has the method, on anything else the call throws.\<close>

definition array_join :: "jsval \<Rightarrow> jsstring \<Rightarrow> jsstring option" where
  "array_join v sep =
     (case v of
        JArr xs \<Rightarrow>
          Some (join_with sep
                  (map (\<lambda>x. if x = JUndefined \<or> x = JNull then [] else to_string x) xs))
      | _ \<Rightarrow> None)"

text \<open>\<^verbatim>\<open>v > n\<close> for a number n: v is read as a number, NaN compares false.\<close>

definition to_number :: "platform \<Rightarrow> jsval \<Rightarrow> int option" where
  "to_number P v =
     (case v of
        JUndefined \<Rightarrow> None
      | JNull \<Rightarrow> Some 0
      | JBool b \<Rightarrow> Some (if b then 1 else 0)
      | JNum n \<Rightarrow> Some n
      | JStr s \<Rightarrow> string_to_number P s
      | _ \<Rightarrow> string_to_number P (to_string v))"

definition js_gt :: "platform \<Rightarrow> jsval \<Rightarrow> int \<Rightarrow> bool" where
  "js_gt P v n = (case to_number P v of None \<Rightarrow> False | Some m \<Rightarrow> m > n)"

text \<open>
  \<^verbatim>\<open>new Date(v)\<close> as its time value (None is NaN, the invalid date): a string is parsed,
  an object or array is parsed as its text, anything else is read as a number of
  milliseconds, valid up to 8.64e15 either way. \<^verbatim>\<open>toLocaleString()\<close> of the invalid date
  is the text Invalid Date in every locale.
\<close>

definition new_Date :: "platform \<Rightarrow> jsval \<Rightarrow> int option" where
  "new_Date P v =
     (case v of
        JStr s \<Rightarrow> date_parse P s
      | JArr xs \<Rightarrow> date_parse P (to_string v)
      | JObj kvs \<Rightarrow> date_parse P (to_string v)
      | _ \<Rightarrow>
         (case to_number P v of
            None \<Rightarrow> None
          | Some n \<Rightarrow> if \<bar>n\<bar> \<le> 8640000000000000 then Some n else None))"

definition toLocaleString :: "platform \<Rightarrow> int option \<Rightarrow> jsstring" where
  "toLocaleString P t =
     (case t of None \<Rightarrow> str ''Invalid Date'' | Some tv \<Rightarrow> locale_string P tv)"

text \<open>\<^verbatim>\<open>a || b\<close>.\<close>

definition js_or :: "jsval \<Rightarrow> jsval \<Rightarrow> jsval" where
  "js_or a b = (if truthy a then a else b)"

text \<open>
  \<^verbatim>\<open>data.forEach((item, index) => ...)\<close> where the body may throw: the texts the body
  appends for each element, in order, or the first exception.
\<close>

fun for_each :: "(nat \<Rightarrow> jsval \<Rightarrow> 'a option) \<Rightarrow> nat \<Rightarrow> jsval list \<Rightarrow> 'a list option" where
  "for_each f index [] = Some []"
| "for_each f index (x # xs) =
     (case f index x of None \<Rightarrow> None
      | Some y \<Rightarrow>
         (case for_each f (Suc index) xs of None \<Rightarrow> None | Some ys \<Rightarrow> Some (y # ys)))"

text \<open>\<^verbatim>\<open>Object.entries(v)\<close>: a TypeError on undefined and null.\<close>

fun indexed :: "nat \<Rightarrow> jsval list \<Rightarrow> (jsstring \<times> jsval) list" where
  "indexed i [] = []"
| "indexed i (x # xs) = (string_of_nat i, x) # indexed (Suc i) xs"

fun entries :: "jsval \<Rightarrow> (jsstring \<times> jsval) list option" where
  "entries JUndefined = None"
| "entries JNull = None"
| "entries (JBool b) = Some []"
| "entries (JNum n) = Some []"
| "entries (JStr s) = Some (indexed 0 (map (\<lambda>c. JStr [c]) s))"
| "entries (JArr xs) = Some (indexed 0 xs)"
| "entries (JObj kvs) = Some kvs"

section \<open>The human-readable formatter\<close>

text \<open>
  formatForHumans of src/tools/github.ts, lines 1815 to 1926 (the same text in part_000,
  lines 1669 to 1780). The source appends to a string; each block below is the list of
  the texts appended, in order, and the result is their concatenation. A line that is
  appended under a condition is line_if.
\<close>

definition line_if :: "bool \<Rightarrow> jsstring \<Rightarrow> jsstring list" where
  "line_if c l = (if c then [l] else [])"


text \<open>
  \<^verbatim>\<open>if (repo.topics && repo.topics.length > 0) result += `... ${repo.topics.join(', ')}\n`\<close>
\<close>

definition topics_line :: "platform \<Rightarrow> jsstring \<Rightarrow> jsval \<Rightarrow> jsstring list option" where
  "topics_line P indent topics =
     (if truthy topics then do {
        len \<leftarrow> get_prop topics (str ''length'');
        if js_gt P len 0 then do {
          joined \<leftarrow> array_join topics (str '', '');
          Some [indent @ txt_topics @ str '': '' @ joined @ nl]
        } else Some []
      } else Some [])"

definition date_text :: "platform \<Rightarrow> jsval \<Rightarrow> jsstring" where
  \<comment> \<open>\<^verbatim>\<open>new Date(v).toLocaleString()\<close>\<close>
  "date_text P v = toLocaleString P (new_Date P v)"


definition repository_item :: "platform \<Rightarrow> nat \<Rightarrow> jsval \<Rightarrow> jsstring list option" where
  "repository_item P index repo = do {
     full_name \<leftarrow> get_prop repo (str ''full_name'');
     name \<leftarrow> get_prop repo (str ''name'');
     description \<leftarrow> get_prop repo (str ''description'');
     html_url \<leftarrow> get_prop repo (str ''html_url'');
     language \<leftarrow> get_prop repo (str ''language'');
     stars \<leftarrow> get_prop repo (str ''stars'');
     belongsTo \<leftarrow> get_prop repo (str ''belongsTo'');
     topics \<leftarrow> get_prop repo (str ''topics'');
     topics_text \<leftarrow> topics_line P (str ''   '') topics;
     updated_at \<leftarrow> get_prop repo (str ''updated_at'');
     Some ([string_of_nat (index + 1) @ str ''. '' @ to_string (js_or full_name name) @ nl]
       @ line_if (truthy description)
           (str ''   '' @ txt_description @ str '': '' @ to_string description @ nl)
       @ [str ''   '' @ txt_link @ str '': '' @ to_string html_url @ nl]
       @ line_if (truthy language)
           (str ''   '' @ txt_language @ str '': '' @ to_string language @ nl)
       @ line_if (truthy stars)
           (str ''   '' @ txt_stars @ str '': '' @ to_string stars @ nl)
       @ line_if (truthy belongsTo)
           (str ''   '' @ txt_owner @ str '': '' @ to_string belongsTo @ nl)
       @ topics_text
       @ [str ''   '' @ txt_updated @ str '': '' @ date_text P updated_at @ nl @ nl])
   }"

definition repository_single :: "platform \<Rightarrow> jsval \<Rightarrow> jsstring list option" where
  "repository_single P data = do {
     full_name \<leftarrow> get_prop data (str ''full_name'');
     name \<leftarrow> get_prop data (str ''name'');
     description \<leftarrow> get_prop data (str ''description'');
     html_url \<leftarrow> get_prop data (str ''html_url'');
     language \<leftarrow> get_prop data (str ''language'');
     stars \<leftarrow> get_prop data (str ''stars'');
     topics \<leftarrow> get_prop data (str ''topics'');
     topics_text \<leftarrow> topics_line P [] topics;
     updated_at \<leftarrow> get_prop data (str ''updated_at'');
     Some ([txt_repository @ str '': '' @ to_string (js_or full_name name) @ nl]
       @ line_if (truthy description)
           (txt_description @ str '': '' @ to_string description @ nl)
       @ [txt_link @ str '': '' @ to_string html_url @ nl]
       @ line_if (truthy language)
           (txt_language @ str '': '' @ to_string language @ nl)
       @ line_if (truthy stars)
           (txt_stars @ str '': '' @ to_string stars @ nl)
       @ topics_text
       @ [txt_updated @ str '': '' @ date_text P updated_at @ nl])
   }"

text \<open>\<^verbatim>\<open>pr.state === 'open' ? ... : ...\<close>, the same for an issue.\<close>

definition state_text :: "jsval \<Rightarrow> jsstring" where
  "state_text state = (if state = JStr (str ''open'') then txt_open else txt_closed)"

definition pull_request_item :: "platform \<Rightarrow> nat \<Rightarrow> jsval \<Rightarrow> jsstring list option" where
  "pull_request_item P index pr = do {
     state \<leftarrow> get_prop pr (str ''state'');
     number \<leftarrow> get_prop pr (str ''number'');
     title \<leftarrow> get_prop pr (str ''title'');
     user \<leftarrow> get_prop pr (str ''user'');
     created_at \<leftarrow> get_prop pr (str ''created_at'');
     merged \<leftarrow> get_prop pr (str ''merged'');
     merged_at \<leftarrow> get_prop pr (str ''merged_at'');
     html_url \<leftarrow> get_prop pr (str ''html_url'');
     Some ([string_of_nat (index + 1) @ str ''. ['' @ state_text state @ str ''] #''
              @ to_string number @ str '': '' @ to_string title @ nl]
       @ line_if (truthy user)
           (str ''   '' @ txt_creator @ str '': '' @ to_string user @ nl)
       @ line_if (truthy created_at)
           (str ''   '' @ txt_created @ str '': '' @ date_text P created_at @ nl)
       @ line_if (merged \<noteq> JUndefined)
           (str ''   '' @ txt_merged @ str '': ''
              @ (if truthy merged then txt_yes else txt_no) @ nl)
       @ line_if (truthy merged_at)
           (str ''   '' @ txt_merged_at @ str '': '' @ date_text P merged_at @ nl)
       @ [str ''   '' @ txt_link @ str '': '' @ to_string html_url @ nl @ nl])
   }"

definition pull_request_single :: "platform \<Rightarrow> jsval \<Rightarrow> jsstring list option" where
  "pull_request_single P data = do {
     number \<leftarrow> get_prop data (str ''number'');
     title \<leftarrow> get_prop data (str ''title'');
     state \<leftarrow> get_prop data (str ''state'');
     user \<leftarrow> get_prop data (str ''user'');
     created_at \<leftarrow> get_prop data (str ''created_at'');
     merged \<leftarrow> get_prop data (str ''merged'');
     merged_at \<leftarrow> get_prop data (str ''merged_at'');
     html_url \<leftarrow> get_prop data (str ''html_url'');
     Some ([txt_pull_request @ str '' #'' @ to_string number @ str '': '' @ to_string title @ nl]
       @ [txt_state @ str '': '' @ state_text state @ nl]
       @ line_if (truthy user)
           (txt_creator @ str '': '' @ to_string user @ nl)
       @ line_if (truthy created_at)
           (txt_created @ str '': '' @ date_text P created_at @ nl)
       @ line_if (merged \<noteq> JUndefined)
           (txt_merged @ str '': '' @ (if truthy merged then txt_yes else txt_no) @ nl)
       @ line_if (truthy merged_at)
           (txt_merged_at @ str '': '' @ date_text P merged_at @ nl)
       @ [txt_link @ str '': '' @ to_string html_url @ nl])
   }"

definition issue_item :: "platform \<Rightarrow> nat \<Rightarrow> jsval \<Rightarrow> jsstring list option" where
  "issue_item P index issue = do {
     state \<leftarrow> get_prop issue (str ''state'');
     number \<leftarrow> get_prop issue (str ''number'');
     title \<leftarrow> get_prop issue (str ''title'');
     user \<leftarrow> get_prop issue (str ''user'');
     created_at \<leftarrow> get_prop issue (str ''created_at'');
     closed_at \<leftarrow> get_prop issue (str ''closed_at'');
     html_url \<leftarrow> get_prop issue (str ''html_url'');
     Some ([string_of_nat (index + 1) @ str ''. ['' @ state_text state @ str ''] #''
              @ to_string number @ str '': '' @ to_string title @ nl]
       @ line_if (truthy user)
           (str ''   '' @ txt_creator @ str '': '' @ to_string user @ nl)
       @ line_if (truthy created_at)
           (str ''   '' @ txt_created @ str '': '' @ date_text P created_at @ nl)
       @ line_if (truthy closed_at)
           (str ''   '' @ txt_closed_at @ str '': '' @ date_text P closed_at @ nl)
       @ [str ''   '' @ txt_link @ str '': '' @ to_string html_url @ nl @ nl])
   }"

definition issue_single :: "platform \<Rightarrow> jsval \<Rightarrow> jsstring list option" where
  "issue_single P data = do {
     number \<leftarrow> get_prop data (str ''number'');
     title \<leftarrow> get_prop data (str ''title'');
     state \<leftarrow> get_prop data (str ''state'');
     user \<leftarrow> get_prop data (str ''user'');
     created_at \<leftarrow> get_prop data (str ''created_at'');
     closed_at \<leftarrow> get_prop data (str ''closed_at'');
     html_url \<leftarrow> get_prop data (str ''html_url'');
     Some ([txt_issue @ str '' #'' @ to_string number @ str '': '' @ to_string title @ nl]
       @ [txt_state @ str '': '' @ state_text state @ nl]
       @ line_if (truthy user)
           (txt_creator @ str '': '' @ to_string user @ nl)
       @ line_if (truthy created_at)
           (txt_created @ str '': '' @ date_text P created_at @ nl)
       @ line_if (truthy closed_at)
           (txt_closed_at @ str '': '' @ date_text P closed_at @ nl)
       @ [txt_link @ str '': '' @ to_string html_url @ nl])
   }"

definition user_item :: "nat \<Rightarrow> jsval \<Rightarrow> jsstring list option" where
  "user_item index user = do {
     login \<leftarrow> get_prop user (str ''login'');
     name \<leftarrow> get_prop user (str ''name'');
     html_url \<leftarrow> get_prop user (str ''html_url'');
     description \<leftarrow> get_prop user (str ''description'');
     Some ([string_of_nat (index + 1) @ str ''. '' @ to_string (js_or login name) @ nl]
       @ line_if (truthy html_url)
           (str ''   '' @ txt_homepage @ str '': '' @ to_string html_url @ nl)
       @ line_if (truthy description)
           (str ''   '' @ txt_description @ str '': '' @ to_string description @ nl)
       @ [nl])
   }"

definition user_single :: "jsval \<Rightarrow> jsstring list option" where
  "user_single data = do {
     login \<leftarrow> get_prop data (str ''login'');
     name \<leftarrow> get_prop data (str ''name'');
     html_url \<leftarrow> get_prop data (str ''html_url'');
     description \<leftarrow> get_prop data (str ''description'');
     Some ([txt_user @ str '': '' @ to_string (js_or login name) @ nl]
       @ line_if (truthy html_url)
           (txt_homepage @ str '': '' @ to_string html_url @ nl)
       @ line_if (truthy description)
           (txt_description @ str '': '' @ to_string description @ nl))
   }"

text \<open>
  A case of the switch: for an array, the sentence for none found when it is empty, else
  the header with the count and the block of each element; for anything else the single
  block.
\<close>

definition listing :: "jsstring \<Rightarrow> jsstring \<Rightarrow> (nat \<Rightarrow> jsval \<Rightarrow> jsstring list option) \<Rightarrow>
    (jsval \<Rightarrow> jsstring list option) \<Rightarrow> jsval \<Rightarrow> jsstring option" where
  "listing none_found counted item single data =
     (case data of
        JArr xs \<Rightarrow>
          if length xs = 0 then Some none_found
          else do {
            blocks \<leftarrow> for_each item 0 xs;
            Some (txt_found @ str '' '' @ string_of_nat (length xs) @ str '' '' @ counted
                    @ str '':'' @ nl @ nl @ concat (concat blocks))
          }
      | _ \<Rightarrow> map_option concat (single data))"

text \<open>The default case: one line \<^verbatim>\<open>key: value\<close> for each entry.\<close>

definition entry_text :: "jsstring \<times> jsval \<Rightarrow> jsstring" where
  "entry_text kv = fst kv @ str '': '' @ to_string (snd kv)"

definition default_item :: "nat \<Rightarrow> jsval \<Rightarrow> jsstring option" where
  "default_item index item = do {
     es \<leftarrow> entries item;
     Some (string_of_nat (index + 1) @ str ''. ''
             @ join_with (nl @ str ''   '') (map entry_text es) @ nl)
   }"

definition default_case :: "jsval \<Rightarrow> jsstring option" where
  "default_case data =
     (case data of
        JArr xs \<Rightarrow> do {
          items \<leftarrow> for_each default_item 0 xs;
          Some (txt_data_list @ str '':'' @ nl @ nl @ join_with nl items)
        }
      | _ \<Rightarrow> do {
          es \<leftarrow> entries data;
          Some (txt_data_details @ str '':'' @ nl @ nl @ join_with nl (map entry_text es) @ nl)
        })"

text \<open>The body of the try block of formatForHumans. None is a thrown exception.\<close>

definition formatForHumans_try :: "platform \<Rightarrow> jsval \<Rightarrow> jsstring \<Rightarrow> jsstring option" where
  "formatForHumans_try P data type =
     (if type = str ''repository''
      then listing txt_no_repositories txt_n_repositories
             (repository_item P) (repository_single P) data
      else if type = str ''pull_request''
      then listing txt_no_pull_requests txt_n_pull_requests
             (pull_request_item P) (pull_request_single P) data
      else if type = str ''issue''
      then listing txt_no_issues txt_n_issues (issue_item P) (issue_single P) data
      else if type = str ''user''
      then listing txt_no_users txt_n_users user_item user_single data
      else default_case data)"

text \<open>The whole function: the catch answers with the JSON text of the data.\<close>

definition formatForHumans :: "platform \<Rightarrow> jsval \<Rightarrow> jsstring \<Rightarrow> jsstring" where
  "formatForHumans P data type =
     (case formatForHumans_try P data type of
        None \<Rightarrow> txt_data @ str '':'' @ nl @ json_stringify P data
      | Some text \<Rightarrow> text)"

section \<open>The cleaner of part_000\<close>

text \<open>
  cleanGitHubResponse of part_000, lines 1429 to 1666: the cases of src/tools/github.ts
  and three more. Its case user (lines 1558 to 1574) has the statements of the case user
  of formatForHumans and returns their text; its case comments (lines 1623 to 1653)
  returns a text as well.
\<close>

text \<open>\<^verbatim>\<open>comment.body.substring(0, 1000) + '...'\<close>: only a string has the method.\<close>

definition substring_dots :: "nat \<Rightarrow> jsval \<Rightarrow> jsval option" where
  "substring_dots n v = (case v of JStr s \<Rightarrow> Some (JStr (take n s @ str ''...'')) | _ \<Rightarrow> None)"

definition clean_comment :: "platform \<Rightarrow> jsval \<Rightarrow> jsval option" where
  "clean_comment P comment = do {
     id \<leftarrow> get_prop comment (str ''id'');
     created_at \<leftarrow> get_prop comment (str ''created_at'');
     updated_at \<leftarrow> get_prop comment (str ''updated_at'');
     html_url \<leftarrow> get_prop comment (str ''html_url'');
     let cleaned = [(str ''id'', id), (str ''created_at'', created_at),
                    (str ''updated_at'', updated_at), (str ''html_url'', html_url)];
     body \<leftarrow> get_prop comment (str ''body'');
     cleaned \<leftarrow>
       (if truthy body then do {
          len \<leftarrow> get_prop body (str ''length'');
          kept \<leftarrow> (if js_gt P len 1000 then substring_dots 1000 body else Some body);
          Some (set_prop cleaned (str ''body'') kept)
        } else Some cleaned);
     user \<leftarrow> get_prop comment (str ''user'');
     cleaned \<leftarrow>
       (if truthy user then do {
          login \<leftarrow> get_prop user (str ''login'');
          Some (if truthy login then set_prop cleaned (str ''user'') login else cleaned)
        } else Some cleaned);
     Some (JObj cleaned)
   }"

definition comment_item :: "platform \<Rightarrow> nat \<Rightarrow> jsval \<Rightarrow> jsstring list option" where
  "comment_item P index comment = do {
     user \<leftarrow> get_prop comment (str ''user'');
     created_at \<leftarrow> get_prop comment (str ''created_at'');
     body \<leftarrow> get_prop comment (str ''body'');
     html_url \<leftarrow> get_prop comment (str ''html_url'');
     Some ([string_of_nat (index + 1) @ str ''. '' @ to_string (js_or user (JStr txt_anonymous))
              @ str '' '' @ txt_commented @ str '':'' @ nl]
       @ line_if (truthy created_at)
           (str ''   '' @ txt_commented_at @ str '': '' @ date_text P created_at @ nl)
       @ line_if (truthy body)
           (str ''   '' @ txt_content @ str '': '' @ to_string body @ nl)
       @ line_if (truthy html_url)
           (str ''   '' @ txt_link @ str '': '' @ to_string html_url @ nl)
       @ [nl])
   }"

definition pagination_text :: "jsval \<Rightarrow> jsstring option" where
  "pagination_text pg =
     (if truthy pg then do {
        current_page \<leftarrow> get_prop pg (str ''current_page'');
        has_prev_page \<leftarrow> get_prop pg (str ''has_prev_page'');
        has_next_page \<leftarrow> get_prop pg (str ''has_next_page'');
        total_count \<leftarrow> get_prop pg (str ''total_count'');
        Some (txt_page @ str '': '' @ to_string current_page @ nl
                @ (if truthy has_prev_page then txt_has_prev @ nl else txt_no_prev @ nl)
                @ (if truthy has_next_page then txt_has_next @ nl else txt_no_next @ nl)
                @ txt_page_count @ str '': '' @ to_string total_count @ nl @ nl)
      } else Some [])"

definition comments_case :: "platform \<Rightarrow> jsval \<Rightarrow> jsval option" where
  "comments_case P data = do {
     comments \<leftarrow> get_prop data (str ''comments'');
     (case comments of
        JArr cs \<Rightarrow> do {
          pg \<leftarrow> get_prop data (str ''pagination'');
          head \<leftarrow> pagination_text pg;
          if length cs = 0 then Some (JStr (head @ txt_no_comments_on_page))
          else do {
            items \<leftarrow> for_each (comment_item P) 0 cs;
            Some (JStr (head @ txt_comment_list @ str '':'' @ nl @ nl @ concat (concat items)))
          }
        }
      | _ \<Rightarrow> Some (JStr txt_no_comment_data))
   }"

definition cleanGitHubResponse_try_part000 :: "platform \<Rightarrow> jsval \<Rightarrow> jsstring \<Rightarrow> jsval option" where
  "cleanGitHubResponse_try_part000 P data type =
     (if type = str ''repository'' then map_or_apply clean_repository data
      else if type = str ''pull_request'' then map_or_apply clean_pull_request data
      else if type = str ''issue'' then map_or_apply clean_issue data
      else if type = str ''user''
      then map_option JStr (listing txt_no_users txt_n_users user_item user_single data)
      else if type = str ''comment'' then map_or_apply (clean_comment P) data
      else if type = str ''comments'' then comments_case P data
      else map_or_apply clean_default data)"

definition cleanGitHubResponse_part000 :: "platform \<Rightarrow> jsval \<Rightarrow> jsstring \<Rightarrow> jsval" where
  "cleanGitHubResponse_part000 P data type =
     (case cleanGitHubResponse_try_part000 P data type of
        None \<Rightarrow> data
      | Some cleaned \<Rightarrow> cleaned)"

section \<open>The pagination of the comment listings\<close>

text \<open>
  The handlers getIssueComments (src/tools/github.ts, lines 1000 to 1070) and
  getPullRequestComments (lines 570 to 716) ask the upstream for one page, with
  \<^verbatim>\<open>per_page: 30\<close> and \<^verbatim>\<open>per_page: 20\<close>, and build the pagination record from the
  number of items that came back. The issue handler counts one upstream call, the
  pull-request handler two (the issue comments and the review comments of the pull
  request).
\<close>

definition issue_comments_per_page :: nat where
  "issue_comments_per_page = 30"

definition pull_request_comments_per_page :: nat where
  "pull_request_comments_per_page = 20"

record pagination =
  current_page :: int
  total_comments :: jsval
  has_next_page :: bool
  next_page :: "int option"

definition getIssueComments_pagination :: "int \<Rightarrow> nat \<Rightarrow> pagination" where
  "getIssueComments_pagination page returned =
     \<lparr> current_page = page,
       total_comments = (if returned \<ge> 30 then JStr (str ''30+'') else JNum (int returned)),
       has_next_page = (returned \<ge> 30),
       next_page = (if returned \<ge> 30 then Some (page + 1) else None) \<rparr>"

definition getPullRequestComments_pagination :: "int \<Rightarrow> nat \<Rightarrow> nat \<Rightarrow> pagination" where
  "getPullRequestComments_pagination page issue_returned review_returned =
     (let hasMoreIssueComments = (issue_returned \<ge> 20);
          hasMoreReviewComments = (review_returned \<ge> 20)
      in \<lparr> current_page = page,
           total_comments = JNum (int (issue_returned + review_returned)),
           has_next_page = (hasMoreIssueComments \<or> hasMoreReviewComments),
           next_page = (if hasMoreIssueComments \<or> hasMoreReviewComments
                        then Some (page + 1) else None) \<rparr>)"

section \<open>The catch clauses of the tool handlers\<close>

text \<open>
  The thirty-four handlers registered in src/tools/github.ts. The body of each is one try
  block with one catch clause around it; the block either returns its text or throws an
  error, which has a message and, when it comes from the upstream, a status.
\<close>

datatype tool =
    ListRepositories | CreateRepository | GetRepository | UpdateRepository
  | DeleteRepository | ListContributors | CreateBranch | GetBranch | ListBranches
  | DeleteBranch | CreatePullRequest | GetPullRequest | ListPullRequests
  | UpdatePullRequest | MergePullRequest | GetPullRequestComments
  | CreatePullRequestComment | CreatePullRequestReviewComment | CreateIssue | GetIssue
  | ListIssues | UpdateIssue | CloseIssue | GetIssueComments | CreateIssueComment
  | ListFollowing | ListFollowingUserRepos | ListFrequentCommunicators
  | ListRepositoryContents | GetFileContent | UpdateFileContent | ListCommits
  | GetCommit | CreateCommit







section \<open>An example platform\<close>

text \<open>
  A platform for the examples below: it parses one date string and renders its time in
  the en-US form, takes every other date string as invalid, reads no string as a number,
  and has a fixed JSON text for every value but null.
\<close>

definition example_platform :: platform where
  "example_platform =
     \<lparr> string_to_number = (\<lambda>s. None),
       date_parse = (\<lambda>s. if s = str ''2024-01-01T00:00:00Z'' then Some 1704067200000 else None),
       locale_string = (\<lambda>t. if t = 1704067200000 then str ''1/1/2024, 12:00:00 AM''
                               else str ''a date''),
       json_stringify = (\<lambda>v. if v = JNull then str ''null'' else str ''{}'') \<rparr>"

section \<open>Properties of the values and of the generic step\<close>

declare string_of_nat.simps [simp del]

lemma of_char_word_inj: "(of_nat (of_char a) :: 16 word) = of_nat (of_char b) \<longleftrightarrow> a = b"
proof -
  have a: "(of_char a :: nat) < 2 ^ 16"
    by (rule less_trans[OF nat_of_char_less_256]) simp
  have b: "(of_char b :: nat) < 2 ^ 16"
    by (rule less_trans[OF nat_of_char_less_256]) simp
  from a b show ?thesis
    by (auto simp: word_of_nat_eq_iff take_bit_nat_eq_self)
qed

lemma str_inj [simp]: "str a = str b \<longleftrightarrow> a = b"
  unfolding str_def
proof (induction a arbitrary: b)
  case Nil then show ?case by auto
next
  case (Cons x xs) then show ?case by (cases b) (auto simp: of_char_word_inj)
qed

lemma str_Nil [simp]: "str [] = []" "str s = [] \<longleftrightarrow> s = []" "[] = str s \<longleftrightarrow> s = []"
  by (auto simp: str_def)




lemma set_prop_fresh: "k \<notin> fst ` set r \<Longrightarrow> set_prop r k v = r @ [(k, v)]"
  by (induction r) auto



lemma flatten_login_obj:
  "flatten_login f (JObj kvs) r =
     Some (case own_prop kvs f of
             JObj ref \<Rightarrow> if truthy (own_prop ref (str ''login''))
                         then set_prop r f (own_prop ref (str ''login'')) else r
           | _ \<Rightarrow> r)"
  by (cases "own_prop kvs f") (auto simp: flatten_login_def)

lemma owner_user_not_kept:
  "str ''owner'' \<notin> set keysToKeep" "str ''user'' \<notin> set keysToKeep"
  "str ''owner'' \<notin> set keysToKeep_entry" "str ''user'' \<notin> set keysToKeep_entry"
  by (simp_all add: keysToKeep_def keysToKeep_entry_def)





section \<open>Truncation and the fallback of the cleaner\<close>




lemma clean_element_null: "x = JNull \<or> x = JUndefined \<Longrightarrow> clean_element type x = None"
  by (auto simp: clean_element_def clean_repository_def clean_pull_request_def clean_issue_def
      clean_default_def removeExcessiveFields_def removeExcessiveFields_with_def keysToKeep_def)

lemma array_map_None: "x \<in> set xs \<Longrightarrow> f x = None \<Longrightarrow> array_map f xs = None"
  by (induction xs) (auto split: option.splits)

lemma null_dereference_throws:
  assumes "data = JNull \<or> data = JUndefined \<or>
           (\<exists>xs. data = JArr xs \<and> (JNull \<in> set xs \<or> JUndefined \<in> set xs))"
  shows "cleanGitHubResponse_try data type = None"
proof -
  from assms consider (n) "data = JNull \<or> data = JUndefined"
    | (a) xs x where "data = JArr xs" "x \<in> set xs" "x = JNull \<or> x = JUndefined"
    by blast
  then show ?thesis
  proof cases
    case n
    then show ?thesis
      using clean_element_null[of data type]
      by (auto simp: cleanGitHubResponse_try_def map_or_apply_def)
  next
    case a
    then show ?thesis
      using array_map_None[of x xs "clean_element type"] clean_element_null[of x type]
      by (simp add: cleanGitHubResponse_try_def map_or_apply_def)
  qed
qed

text \<open>
  C5. When an exception occurs inside the try block the cleaner returns the value it was
  given; the function is total, so no exception reaches the caller. Both copies. A null
  dereference is such an exception: it occurs when the data is null or undefined, or an
  array with a null or undefined element.
\<close>

theorem cleaner_exception_returns_input:
  "(cleanGitHubResponse_try data type = None \<longrightarrow> cleanGitHubResponse data type = data) \<and>
   (cleanGitHubResponse_try_part000 P data type = None \<longrightarrow>
      cleanGitHubResponse_part000 P data type = data) \<and>
   (data = JNull \<or> data = JUndefined \<or>
    (\<exists>xs. data = JArr xs \<and> (JNull \<in> set xs \<or> JUndefined \<in> set xs)) \<longrightarrow>
      cleanGitHubResponse_try data type = None \<and> cleanGitHubResponse data type = data)"
  using null_dereference_throws[of data type]
  by (auto simp: cleanGitHubResponse_def cleanGitHubResponse_part000_def)

theorem cleaner_exception_returns_input_witness:
  "cleanGitHubResponse_try (JArr [JObj [(str ''id'', JNum 1)], JNull]) (str ''issue'') = None \<and>
   cleanGitHubResponse (JArr [JObj [(str ''id'', JNum 1)], JNull]) (str ''issue'')
     = JArr [JObj [(str ''id'', JNum 1)], JNull] \<and>
   cleanGitHubResponse_try_part000 example_platform JNull (str ''comment'') = None \<and>
   cleanGitHubResponse_part000 example_platform JNull (str ''comment'') = JNull"
proof -
  have a: "cleanGitHubResponse_try (JArr [JObj [(str ''id'', JNum 1)], JNull]) (str ''issue'') = None"
    by (simp add: cleanGitHubResponse_try_def clean_element_def map_or_apply_def clean_issue_def
        removeExcessiveFields_def removeExcessiveFields_with_def keysToKeep_def own_prop_def
        flatten_login_def assign_if_truthy_def assign_names_def)
  have b: "cleanGitHubResponse_try_part000 example_platform JNull (str ''comment'') = None"
    by (simp add: cleanGitHubResponse_try_part000_def map_or_apply_def clean_comment_def)
  from a b cleaner_exception_returns_input[of "JArr [JObj [(str ''id'', JNum 1)], JNull]"
      "str ''issue''" example_platform]
    cleaner_exception_returns_input[of JNull "str ''comment''" example_platform]
  show ?thesis by simp
qed

section \<open>The shape of the cleaned value and idempotence\<close>

text \<open>
  In src/tools/github.ts an array is cleaned to an array of the same length, element by
  element in order when no exception occurs, and an object to an object.
\<close>

lemma array_map_length: "array_map f xs = Some ys \<Longrightarrow> length ys = length xs"
  by (induction xs arbitrary: ys) (auto split: option.splits)

lemma array_map_nth:
  "array_map f xs = Some ys \<Longrightarrow> i < length xs \<Longrightarrow> f (xs ! i) = Some (ys ! i)"
proof (induction xs arbitrary: ys i)
  case Nil then show ?case by simp
next
  case (Cons x xs)
  then show ?case by (cases i) (auto split: option.splits)
qed

lemma cleanGitHubResponse_array:
  "\<exists>ys. cleanGitHubResponse (JArr xs) type = JArr ys \<and> length ys = length xs \<and>
     (cleanGitHubResponse_try (JArr xs) type \<noteq> None \<longrightarrow>
        (\<forall>i<length xs. clean_element type (xs ! i) = Some (ys ! i)))"
proof (cases "array_map (clean_element type) xs")
  case None
  then show ?thesis
    by (simp add: cleanGitHubResponse_def cleanGitHubResponse_try_def map_or_apply_def)
next
  case (Some ys)
  then show ?thesis
    using array_map_length[OF Some] array_map_nth[OF Some]
    by (simp add: cleanGitHubResponse_def cleanGitHubResponse_try_def map_or_apply_def)
qed

lemma clean_element_object: "clean_element type x = Some y \<Longrightarrow> \<exists>cleaned. y = JObj cleaned"
  by (auto simp: clean_element_def clean_repository_def clean_pull_request_def clean_issue_def
      clean_default_def split: if_splits Option.bind_splits)

lemma cleanGitHubResponse_object:
  "\<exists>cleaned. cleanGitHubResponse (JObj kvs) type = JObj cleaned"
  using clean_element_object[of type "JObj kvs"]
  by (auto simp: cleanGitHubResponse_def cleanGitHubResponse_try_def map_or_apply_def
      split: option.splits)

text \<open>
  In src/tools/github.ts, cleaning a value whose fields are all in the key list, or an
  array of such values, a second time changes nothing, for every kind.
\<close>

lemma keep_loop_fresh:
  "distinct ks \<Longrightarrow> set ks \<inter> fst ` set r = {} \<Longrightarrow>
   keep_loop ks (JObj kvs) r = Some (r @ kept_fields ks kvs)"
proof (induction ks arbitrary: r)
  case Nil then show ?case by (simp add: kept_fields_def)
next
  case (Cons key keys)
  show ?case
  proof (cases "own_prop kvs key = JUndefined")
    case True
    with Cons show ?thesis by (simp add: kept_fields_def)
  next
    case False
    from Cons.prems have fresh: "key \<notin> fst ` set r" by auto
    have "set keys \<inter> fst ` set (r @ [(key, kept_value key (own_prop kvs key))]) = {}"
      using Cons.prems by auto
    with Cons.IH[of "r @ [(key, kept_value key (own_prop kvs key))]"] Cons.prems False fresh
    show ?thesis by (simp add: set_prop_fresh kept_fields_def)
  qed
qed

lemma map_of_kept_fields:
  "map_of (kept_fields keys kvs) k =
     (if k \<in> set keys \<and> own_prop kvs k \<noteq> JUndefined
      then Some (kept_value k (own_prop kvs k)) else None)"
  by (simp add: kept_fields_def map_of_map_restrict restrict_map_def)

lemma own_prop_kept_fields:
  "own_prop (kept_fields keys kvs) k =
     (if k \<in> set keys \<and> own_prop kvs k \<noteq> JUndefined
      then kept_value k (own_prop kvs k) else JUndefined)"
  unfolding own_prop_def[of "kept_fields keys kvs"] map_of_kept_fields by simp

lemma kept_value_idem: "kept_value k (kept_value k v) = kept_value k v"
  by (cases v) auto

lemma kept_value_undefined: "kept_value k v = JUndefined \<longleftrightarrow> v = JUndefined"
  by (cases v) auto

lemma kept_fields_idem: "kept_fields keys (kept_fields keys kvs) = kept_fields keys kvs"
proof -
  have f: "filter (\<lambda>k. own_prop (kept_fields keys kvs) k \<noteq> JUndefined) keys
         = filter (\<lambda>k. own_prop kvs k \<noteq> JUndefined) keys"
    by (rule filter_cong) (auto simp: own_prop_kept_fields kept_value_undefined)
  have m: "map (\<lambda>k. (k, kept_value k (own_prop (kept_fields keys kvs) k)))
             (filter (\<lambda>k. own_prop kvs k \<noteq> JUndefined) keys)
         = map (\<lambda>k. (k, kept_value k (own_prop kvs k)))
             (filter (\<lambda>k. own_prop kvs k \<noteq> JUndefined) keys)"
    by (rule map_cong) (auto simp: own_prop_kept_fields kept_value_idem)
  have "kept_fields keys (kept_fields keys kvs)
         = map (\<lambda>k. (k, kept_value k (own_prop (kept_fields keys kvs) k)))
             (filter (\<lambda>k. own_prop (kept_fields keys kvs) k \<noteq> JUndefined) keys)"
    by (rule kept_fields_def)
  also have "\<dots> = map (\<lambda>k. (k, kept_value k (own_prop kvs k)))
             (filter (\<lambda>k. own_prop kvs k \<noteq> JUndefined) keys)"
    unfolding f m ..
  also have "\<dots> = kept_fields keys kvs"
    by (simp add: kept_fields_def)
  finally show ?thesis .
qed

lemma own_prop_absent: "k \<notin> fst ` set kvs \<Longrightarrow> own_prop kvs k = JUndefined"
proof -
  assume "k \<notin> fst ` set kvs"
  then have "map_of kvs k = None" by (simp add: map_of_eq_None_iff)
  then show ?thesis by (simp add: own_prop_def)
qed

lemma fields_within_absent:
  "fields_within keys (JObj kvs) \<Longrightarrow> k \<notin> set keys \<Longrightarrow> own_prop kvs k = JUndefined"
  by (rule own_prop_absent) (auto simp: fields_within_def list_all_iff)

lemma fields_within_kept: "fields_within keys (JObj (kept_fields keys kvs))"
  by (auto simp: fields_within_def list_all_iff kept_fields_def)

lemma distinct_keysToKeep: "distinct keysToKeep"
  by (simp add: keysToKeep_def)

lemma removeExcessiveFields_within:
  assumes "fields_within keysToKeep (JObj kvs)"
  shows "removeExcessiveFields (JObj kvs) = Some (kept_fields keysToKeep kvs)"
proof -
  have o: "own_prop kvs (str ''owner'') = JUndefined" "own_prop kvs (str ''user'') = JUndefined"
    using fields_within_absent[OF assms] owner_user_not_kept by auto
  have "keep_loop keysToKeep (JObj kvs) [] = Some (kept_fields keysToKeep kvs)"
    using keep_loop_fresh[OF distinct_keysToKeep, of "[]" kvs] by simp
  then show ?thesis
    by (simp add: removeExcessiveFields_def removeExcessiveFields_with_def flatten_login_obj o)
qed

lemma clean_element_within:
  assumes "fields_within keysToKeep (JObj kvs)"
  shows "clean_element type (JObj kvs) = Some (JObj (kept_fields keysToKeep kvs))"
proof -
  have a: "own_prop kvs (str k) = JUndefined"
    if "k \<in> {''topics'', ''open_issues_count'', ''clone_url'', ''stargazers_count'',
        ''visibility'', ''merged_at'', ''head'', ''base'', ''merged'', ''closed_at'',
        ''labels'', ''assignees''}" for k
    using that by (intro fields_within_absent[OF assms]) (auto simp: keysToKeep_def)
  show ?thesis
    by (simp add: clean_element_def clean_repository_def clean_pull_request_def clean_issue_def
        clean_default_def removeExcessiveFields_within[OF assms] assign_if_truthy_def
        assign_if_defined_def assign_ref_def assign_names_def a)
qed

lemma array_map_all: "(\<And>x. x \<in> set xs \<Longrightarrow> f x = Some (g x)) \<Longrightarrow> array_map f xs = Some (map g xs)"
  by (induction xs) auto

lemma cleanGitHubResponse_idempotent:
  assumes "within_allow_list data"
  shows "cleanGitHubResponse (cleanGitHubResponse data type) type = cleanGitHubResponse data type"
proof (cases data)
  case (JObj kvs)
  with assms have w: "fields_within keysToKeep (JObj kvs)"
    by (simp add: within_allow_list_def)
  have 1: "cleanGitHubResponse (JObj kvs) type = JObj (kept_fields keysToKeep kvs)"
    by (simp add: cleanGitHubResponse_def cleanGitHubResponse_try_def map_or_apply_def
        clean_element_within[OF w])
  have 2: "cleanGitHubResponse (JObj (kept_fields keysToKeep kvs)) type
             = JObj (kept_fields keysToKeep (kept_fields keysToKeep kvs))"
    by (simp add: cleanGitHubResponse_def cleanGitHubResponse_try_def map_or_apply_def
        clean_element_within[OF fields_within_kept])
  show ?thesis unfolding JObj 1 2 by (simp add: kept_fields_idem)
next
  case (JArr xs)
  define g where "g = (\<lambda>x. case x of JObj kvs \<Rightarrow> JObj (kept_fields keysToKeep kvs) | _ \<Rightarrow> x)"
  from assms JArr have w: "\<And>x. x \<in> set xs \<Longrightarrow> fields_within keysToKeep x"
    by (simp add: within_allow_list_def list_all_iff)
  have c: "clean_element type x = Some (g x) \<and> fields_within keysToKeep (g x) \<and> g (g x) = g x"
    if "fields_within keysToKeep x" for x
  proof -
    from that obtain kvs where x: "x = JObj kvs"
      by (cases x) (auto simp: fields_within_def)
    show ?thesis
      using that clean_element_within[of kvs type] fields_within_kept[of keysToKeep kvs]
      by (simp add: x g_def kept_fields_idem)
  qed
  have 1: "array_map (clean_element type) xs = Some (map g xs)"
    by (rule array_map_all) (use c w in blast)
  have gg: "g (g x) = g x" if "x \<in> set xs" for x
    using c[OF w[OF that]] by simp
  have 3: "map g (map g xs) = map g xs"
    by (auto simp: gg)
  have "array_map (clean_element type) (map g xs) = Some (map g (map g xs))"
    by (rule array_map_all) (use c w in auto)
  then have 2: "array_map (clean_element type) (map g xs) = Some (map g xs)"
    by (simp only: 3)
  show ?thesis
    unfolding JArr
    by (simp add: cleanGitHubResponse_def cleanGitHubResponse_try_def map_or_apply_def 1 2)
qed (use assms in \<open>simp_all add: within_allow_list_def fields_within_def\<close>)

text \<open>
  C2 fails in part_000. Its cleaner has a case user that returns the text of the listing:
  for an array of one user the result is a string, where src/tools/github.ts, which has
  no such case, returns the array of the cleaned user.
\<close>

theorem user_case_returns_text:
  "cleanGitHubResponse_part000 example_platform
      (JArr [JObj [(str ''login'', JStr (str ''a''))]]) (str ''user'')
     = JStr (txt_found @ str '' 1 '' @ txt_n_users @ str '':'' @ nl @ nl @ str ''1. a'' @ nl @ nl) \<and>
   cleanGitHubResponse (JArr [JObj [(str ''login'', JStr (str ''a''))]]) (str ''user'')
     = JArr [JObj [(str ''login'', JStr (str ''a''))]]"
  by (simp add: cleanGitHubResponse_part000_def cleanGitHubResponse_try_part000_def listing_def
      user_item_def own_prop_def line_if_def js_or_def string_of_nat.simps str_def
      cleanGitHubResponse_def cleanGitHubResponse_try_def clean_element_def map_or_apply_def
      clean_default_def removeExcessiveFields_def removeExcessiveFields_with_def keysToKeep_def
      flatten_login_def)

text \<open>
  C4 fails in part_000, by the same case user: an object with the one field login, which
  is in the key list, is cleaned to a text, and cleaning that text again gives another
  text.
\<close>

theorem user_case_not_idempotent:
  "cleanGitHubResponse_part000 example_platform (JObj [(str ''login'', JStr (str ''a''))]) (str ''user'')
     = JStr (txt_user @ str '': a'' @ nl) \<and>
   cleanGitHubResponse_part000 example_platform
     (cleanGitHubResponse_part000 example_platform (JObj [(str ''login'', JStr (str ''a''))]) (str ''user''))
     (str ''user'')
     = JStr (txt_user @ str '': undefined'' @ nl) \<and>
   within_allow_list (JObj [(str ''login'', JStr (str ''a''))])"
  by (simp add: cleanGitHubResponse_part000_def cleanGitHubResponse_try_part000_def listing_def
      user_single_def own_prop_def line_if_def js_or_def str_def within_allow_list_def
      fields_within_def keysToKeep_def)

section \<open>The formatter\<close>

text \<open>
  C6. For each of the kinds repository, pull_request, issue and user, formatForHumans of
  the empty array returns, without an exception, the sentence of that kind for none found;
  the four sentences differ from each other and from the empty string. For the kind issue
  it is the sentence for no issues found.
\<close>

theorem empty_array_sentence:
  "formatForHumans_try P (JArr []) (str ''repository'') = Some txt_no_repositories \<and>
   formatForHumans_try P (JArr []) (str ''pull_request'') = Some txt_no_pull_requests \<and>
   formatForHumans_try P (JArr []) (str ''issue'') = Some txt_no_issues \<and>
   formatForHumans_try P (JArr []) (str ''user'') = Some txt_no_users \<and>
   formatForHumans P (JArr []) (str ''repository'') = txt_no_repositories \<and>
   formatForHumans P (JArr []) (str ''pull_request'') = txt_no_pull_requests \<and>
   formatForHumans P (JArr []) (str ''issue'') = txt_no_issues \<and>
   formatForHumans P (JArr []) (str ''user'') = txt_no_users \<and>
   distinct [[], txt_no_repositories, txt_no_pull_requests, txt_no_issues, txt_no_users]"
  by (simp add: formatForHumans_def formatForHumans_try_def listing_def
      txt_no_repositories_def txt_no_pull_requests_def txt_no_issues_def txt_no_users_def)

theorem empty_array_sentence_witness:
  "formatForHumans example_platform (JArr []) (str ''issue'')
     = [0x672A, 0x627E, 0x5230, 0x4EFB, 0x4F55, 0x8BAE, 0x9898, 0x3002] \<and>
   formatForHumans example_platform (JArr []) (str ''issue'') \<noteq> []"
  using empty_array_sentence[of example_platform] by (simp add: txt_no_issues_def)

text \<open>
  C8. The pagination record of getIssueComments (page size 30) and of
  getPullRequestComments (page size 20, for each of its two upstream calls) has
  has_next_page true when a call returned exactly the page size and false when every call
  returned fewer.
\<close>

theorem pagination_heuristic:
  "(returned = issue_comments_per_page \<longrightarrow>
      has_next_page (getIssueComments_pagination page returned)) \<and>
   (returned < issue_comments_per_page \<longrightarrow>
      \<not> has_next_page (getIssueComments_pagination page returned)) \<and>
   (issue_returned = pull_request_comments_per_page \<or>
    review_returned = pull_request_comments_per_page \<longrightarrow>
      has_next_page (getPullRequestComments_pagination page issue_returned review_returned)) \<and>
   (issue_returned < pull_request_comments_per_page \<and>
    review_returned < pull_request_comments_per_page \<longrightarrow>
      \<not> has_next_page (getPullRequestComments_pagination page issue_returned review_returned))"
  by (auto simp: getIssueComments_pagination_def getPullRequestComments_pagination_def
      issue_comments_per_page_def pull_request_comments_per_page_def)

theorem pagination_heuristic_witness:
  "has_next_page (getIssueComments_pagination 1 30) \<and>
   \<not> has_next_page (getIssueComments_pagination 2 29) \<and>
   has_next_page (getPullRequestComments_pagination 1 20 3) \<and>
   \<not> has_next_page (getPullRequestComments_pagination 2 19 3)"
  using pagination_heuristic[of 30 1 20 3] pagination_heuristic[of 29 2 19 3]
  by (simp add: issue_comments_per_page_def pull_request_comments_per_page_def)

subsection \<open>The lines of a repository\<close>











subsection \<open>The date lines\<close>










section \<open>The tool handlers\<close>




end
